theory Spec2Isabelle
  imports Main
begin

section \<open>Strings, lines and regular expressions\<close>

text \<open>
  A JavaScript string is modelled as the list of its code units, restricted to the units
  below 256 that \<^typ>\<open>char\<close> can hold. \<open>nl\<close> is the string \<^verbatim>\<open>'\n'\<close>.
\<close>

definition nl :: string where
  "nl = [CHR 0x0A]"

text \<open>
  The class \<^verbatim>\<open>\s\<close> of JavaScript regular expressions on these code units: tab, line
  feed, vertical tab, form feed, carriage return, space and no-break space.
\<close>

definition isSpace :: "char \<Rightarrow> bool" where
  "isSpace c = (c = CHR 0x09 \<or> c = CHR 0x0A \<or> c = CHR 0x0B \<or> c = CHR 0x0C
     \<or> c = CHR 0x0D \<or> c = CHR 0x20 \<or> c = CHR 0xA0)"

text \<open>\<^verbatim>\<open>s.match(/^\s*$/)\<close>: the whole string is whitespace (no \<^verbatim>\<open>m\<close> flag).\<close>

definition blank :: "string \<Rightarrow> bool" where
  "blank s = list_all isSpace s"

text \<open>
  \<^verbatim>\<open>data.split('\n')\<close>: never empty, and no piece holds a line feed. The result of the
  recursive call is never empty, so the first branch of the \<open>case\<close> is never taken.
\<close>

fun split_nl :: "string \<Rightarrow> string list" where
  "split_nl [] = [[]]"
| "split_nl (c # cs) =
     (if c = CHR 0x0A then [] # split_nl cs
      else (case split_nl cs of [] \<Rightarrow> [[c]] | l # ls \<Rightarrow> (c # l) # ls))"

text \<open>
  A regular expression without the \<^verbatim>\<open>g\<close> flag is modelled by what it does to a string:
  the position and the length of its first match, if there is one.
  \<open>re_match\<close> is the truth value of \<^verbatim>\<open>line.match(re)\<close>, and \<open>re_replace\<close> is
  \<^verbatim>\<open>line.replace(re, '')\<close>, which deletes the first match.
\<close>

type_synonym regex = "string \<Rightarrow> (nat \<times> nat) option"

definition re_match :: "regex \<Rightarrow> string \<Rightarrow> bool" where
  "re_match re s = (re s \<noteq> None)"

definition re_replace :: "regex \<Rightarrow> string \<Rightarrow> string" where
  "re_replace re s = (case re s of None \<Rightarrow> s | Some (i, n) \<Rightarrow> take i s @ drop (i + n) s)"

text \<open>The first occurrence of a literal, counted from position \<open>i\<close> of the whole string.\<close>

fun indexOf :: "string \<Rightarrow> string \<Rightarrow> nat \<Rightarrow> nat option" where
  "indexOf pat [] i = (if pat = [] then Some i else None)"
| "indexOf pat (c # cs) i =
     (if take (length pat) (c # cs) = pat then Some i else indexOf pat cs (Suc i))"

definition re_literal :: "string \<Rightarrow> regex" where
  "re_literal pat s = (case indexOf pat s 0 of None \<Rightarrow> None | Some i \<Rightarrow> Some (i, length pat))"

text \<open>
  \<^verbatim>\<open>/^\s*\/\/\s?/\<close>: since \<^verbatim>\<open>/\<close> is no whitespace, \<^verbatim>\<open>\s*\<close> has to take all the
  leading whitespace; \<^verbatim>\<open>\s?\<close> is greedy and takes one more whitespace unit when there
  is one.
\<close>

definition re_commentRegex :: regex where
  "re_commentRegex s =
     (let r = dropWhile isSpace s in
      if take 2 r = ''//''
      then Some (0, length (takeWhile isSpace s) + 2
                    + (if list_all isSpace (take 1 (drop 2 r)) \<and> drop 2 r \<noteq> [] then 1 else 0))
      else None)"

text \<open>\<^verbatim>\<open>/^\s*\/\/=/\<close>\<close>

definition re_commentsIgnore :: regex where
  "re_commentsIgnore s =
     (if take 3 (dropWhile isSpace s) = ''//=''
      then Some (0, length (takeWhile isSpace s) + 3) else None)"

section \<open>Language parameters\<close>

datatype error = UnknownLanguage

text \<open>
  The fields of the parameter object that \<^verbatim>\<open>parseSections\<close> reads. The other fields
  (\<^verbatim>\<open>name\<close>, \<^verbatim>\<open>comment\<close>, \<^verbatim>\<open>divText\<close>, \<^verbatim>\<open>divHtml\<close>) are read by
  \<^verbatim>\<open>highlight\<close> only.
\<close>

record params =
  commentRegex :: regex
  commentsIgnore :: regex
  multilineStart :: regex
  multilineEnd :: regex

definition javascript :: params where
  "javascript = \<lparr> commentRegex = re_commentRegex,
                  commentsIgnore = re_commentsIgnore,
                  multilineStart = re_literal ''/*'',
                  multilineEnd = re_literal ''*/'' \<rparr>"

text \<open>
  \<^verbatim>\<open>languageParams\<close> switches on \<^verbatim>\<open>path.extname(filename)\<close>. The function
  \<^verbatim>\<open>path.extname\<close> belongs to the platform and is a parameter here.
\<close>

definition languageParams :: "(string \<Rightarrow> string) \<Rightarrow> string \<Rightarrow> error + params" where
  "languageParams extname filename =
     (if extname filename = ''.js'' then Inr javascript else Inl UnknownLanguage)"

section \<open>The section parser\<close>

record Section =
  docs :: string
  code :: string

record parser_state =
  sections :: "Section list"
  currentSection :: Section
  inMultiLineComment :: bool
  multiLine :: string
  console :: "string list"

definition emptySection :: Section where
  "emptySection = \<lparr> docs = '''', code = '''' \<rparr>"

definition initialState :: parser_state where
  "initialState = \<lparr> sections = [], currentSection = emptySection,
                     inMultiLineComment = False, multiLine = '''', console = [] \<rparr>"

text \<open>
  The statement that both comment branches start with (lines 233 to 236 and 241 to 244):
  when the current section has code, it is pushed unless its code and its docs are both
  whitespace, and a new section is started.
\<close>

definition storeSection :: "parser_state \<Rightarrow> parser_state" where
  "storeSection st =
     (if code (currentSection st) \<noteq> ''''
      then st \<lparr> sections :=
                  (if \<not> blank (code (currentSection st)) \<or> \<not> blank (docs (currentSection st))
                   then sections st @ [currentSection st] else sections st),
                currentSection := emptySection \<rparr>
      else st)"

text \<open>
  The two calls inside \<^verbatim>\<open>try\<close>, \<^verbatim>\<open>this.doxTemplate(dox.parseComments(multiLine)[0])\<close>,
  are a parameter \<open>dox\<close>: \<open>Inr\<close> the rendered text, \<open>Inl\<close> the thrown value as
  \<^verbatim>\<open>"Dox error: " + e\<close> prints it.
\<close>

type_synonym dox = "string \<Rightarrow> string + string"

text \<open>The body of the loop, for one line.\<close>

definition parseLine :: "params \<Rightarrow> dox \<Rightarrow> parser_state \<Rightarrow> string \<Rightarrow> parser_state" where
  "parseLine p dx st line =
     (if inMultiLineComment st then
        (if re_match (multilineEnd p) line then
           (case dx (multiLine st @ line @ nl) of
              Inr text \<Rightarrow>
                st \<lparr> currentSection :=
                       (currentSection st) \<lparr> docs := docs (currentSection st) @ text \<rparr>,
                     inMultiLineComment := False, multiLine := '''' \<rparr>
            | Inl e \<Rightarrow>
                st \<lparr> currentSection :=
                       (currentSection st)
                         \<lparr> docs := docs (currentSection st) @ (multiLine st @ line @ nl) \<rparr>,
                     inMultiLineComment := False, multiLine := '''',
                     console := console st @ [''Dox error: '' @ e] \<rparr>)
         else st \<lparr> multiLine := multiLine st @ line @ nl \<rparr>)
      else if re_match (multilineStart p) line \<and> \<not> re_match (multilineEnd p) line then
        (storeSection st) \<lparr> inMultiLineComment := True, multiLine := line \<rparr>
      else if re_match (commentRegex p) line \<and> \<not> re_match (commentsIgnore p) line then
        (storeSection st)
          \<lparr> currentSection :=
              (currentSection (storeSection st))
                \<lparr> docs := docs (currentSection (storeSection st))
                           @ re_replace (commentRegex p) line @ nl \<rparr> \<rparr>
      else if \<not> re_match (commentsIgnore p) line then
        st \<lparr> currentSection :=
               (currentSection st) \<lparr> code := code (currentSection st) @ line @ nl \<rparr> \<rparr>
      else st)"

text \<open>The loop over the lines, from any state.\<close>

definition parseLines :: "params \<Rightarrow> dox \<Rightarrow> parser_state \<Rightarrow> string list \<Rightarrow> parser_state" where
  "parseLines p dx st ls = foldl (parseLine p dx) st ls"

text \<open>The state when the loop over all the lines of \<open>data\<close> has ended.\<close>

definition finalState :: "params \<Rightarrow> dox \<Rightarrow> string \<Rightarrow> parser_state" where
  "finalState p dx data = parseLines p dx initialState (split_nl data)"

text \<open>
  \<^verbatim>\<open>parseSections(data, filename)\<close>. The platform and the dox library come in a record;
  the exception of \<^verbatim>\<open>languageParams\<close> passes through.
\<close>

record env =
  extname :: "string \<Rightarrow> string"
  doxRender :: dox

definition parseSections :: "env \<Rightarrow> string \<Rightarrow> string \<Rightarrow> error + Section list" where
  "parseSections e data filename =
     (case languageParams (extname e) filename of
        Inl err \<Rightarrow> Inl err
      | Inr p \<Rightarrow>
          Inr (sections (finalState p (doxRender e) data)
               @ [currentSection (finalState p (doxRender e) data)]))"

section \<open>What the claims speak of\<close>

text \<open>All the code text of a sequence of sections, in sequence order.\<close>

definition allCode :: "Section list \<Rightarrow> string" where
  "allCode secs = concat (map code secs)"

text \<open>Lines put together again, each one followed by its line feed.\<close>

definition joinLines :: "string list \<Rightarrow> string" where
  "joinLines ls = concat (map (\<lambda>l. l @ nl) ls)"

text \<open>
  The code lines of a file, in the words of the specification: the lines that are not
  consumed as comments (neither buffered in a multi-line block, nor opening one, nor a
  single-line comment), minus the lines that match the ignore pattern. The flag says whether
  a multi-line block is open.
\<close>

fun codeLines_spec :: "params \<Rightarrow> bool \<Rightarrow> string list \<Rightarrow> string list" where
  "codeLines_spec p inBlock [] = []"
| "codeLines_spec p inBlock (l # ls) =
     (if inBlock then codeLines_spec p (\<not> re_match (multilineEnd p) l) ls
      else if re_match (multilineStart p) l \<and> \<not> re_match (multilineEnd p) l
        then codeLines_spec p True ls
      else if re_match (commentRegex p) l \<and> \<not> re_match (commentsIgnore p) l
        then codeLines_spec p False ls
      else if re_match (commentsIgnore p) l then codeLines_spec p False ls
      else l # codeLines_spec p False ls)"

text \<open>
  A boundary: outside a block, a line that starts a multi-line block (the test of line 231)
  or a single-line comment that is not ignored (the test of line 239). These are the lines
  at which \<^verbatim>\<open>if(section.code)\<close> is asked.
\<close>

definition atBoundary :: "params \<Rightarrow> parser_state \<Rightarrow> string \<Rightarrow> bool" where
  "atBoundary p st l =
     (\<not> inMultiLineComment st
      \<and> ((re_match (multilineStart p) l \<and> \<not> re_match (multilineEnd p) l)
         \<or> (re_match (commentRegex p) l \<and> \<not> re_match (commentsIgnore p) l)))"

text \<open>
  The sections that the loop finishes, in order, when it runs over the lines from a state:
  at each boundary where the current section has code (\<^verbatim>\<open>if(section.code)\<close> holds, lines
  233 and 241), the current section is finished, whether line 234 or 242 then pushes it or
  not, and a new one is started.
\<close>

fun finishedSections :: "params \<Rightarrow> dox \<Rightarrow> parser_state \<Rightarrow> string list \<Rightarrow> Section list" where
  "finishedSections p dx st [] = []"
| "finishedSections p dx st (l # ls) =
     (if atBoundary p st l \<and> code (currentSection st) \<noteq> '''' then [currentSection st] else [])
     @ finishedSections p dx (parseLine p dx st l) ls"

section \<open>A concrete environment\<close>

text \<open>
  Stand-ins for the two collaborators, for running the parser on concrete inputs.
  \<open>extnameModel\<close> stands for \<^verbatim>\<open>path.extname\<close> on plain file names only: it gives the
  part from the last dot of the last path component on, and the empty string when that
  component has no dot or only a leading one. On a path that ends with a slash and on the
  component \<^verbatim>\<open>..\<close> it differs from \<^verbatim>\<open>path.extname\<close>; it is used at \<^verbatim>\<open>a.js\<close> only, and
  every general statement takes the function as a parameter. \<open>doxThrows\<close> is a dox whose
  rendering always throws, as it does when its template cannot be read.
\<close>

definition extnameModel :: "string \<Rightarrow> string" where
  "extnameModel path =
     (let base = rev (takeWhile (\<lambda>c. c \<noteq> CHR ''/'') (rev path));
          ext = rev (takeWhile (\<lambda>c. c \<noteq> CHR ''.'') (rev base))
      in if length ext = length base \<or> Suc (length ext) = length base then ''''
         else CHR ''.'' # ext)"

definition doxThrows :: dox where
  "doxThrows s = Inl ''Error''"

definition throwingEnv :: env where
  "throwingEnv = \<lparr> extname = extnameModel, doxRender = doxThrows \<rparr>"

section \<open>The branches of the loop body\<close>

lemma split_nl_not_empty: "split_nl s \<noteq> []"
  by (induction s) (auto split: list.splits)

lemma storeSection_keeps [simp]:
  "inMultiLineComment (storeSection st) = inMultiLineComment st"
  "multiLine (storeSection st) = multiLine st"
  "console (storeSection st) = console st"
  by (simp_all add: storeSection_def)

lemma storeSection_code [simp]: "code (currentSection (storeSection st)) = ''''"
  by (simp add: storeSection_def emptySection_def)

lemma storeSection_sections:
  "sections (storeSection st) =
     (if code (currentSection st) \<noteq> ''''
         \<and> (\<not> blank (code (currentSection st)) \<or> \<not> blank (docs (currentSection st)))
      then sections st @ [currentSection st] else sections st)"
  by (simp add: storeSection_def)

lemma storeSection_current:
  "currentSection (storeSection st) =
     (if code (currentSection st) \<noteq> '''' then emptySection else currentSection st)"
  by (simp add: storeSection_def)

lemma storeSection_idle:
  "code (currentSection st) = '''' \<Longrightarrow> storeSection st = st"
  by (simp add: storeSection_def)

lemma parseLine_buffer:
  "inMultiLineComment st \<Longrightarrow> \<not> re_match (multilineEnd p) l \<Longrightarrow>
   parseLine p dx st l = st \<lparr> multiLine := multiLine st @ l @ nl \<rparr>"
  by (simp add: parseLine_def)

lemma parseLine_close_rendered:
  "inMultiLineComment st \<Longrightarrow> re_match (multilineEnd p) l \<Longrightarrow>
   dx (multiLine st @ l @ nl) = Inr t \<Longrightarrow>
   parseLine p dx st l =
     st \<lparr> currentSection := (currentSection st) \<lparr> docs := docs (currentSection st) @ t \<rparr>,
          inMultiLineComment := False, multiLine := '''' \<rparr>"
  by (simp add: parseLine_def)

lemma parseLine_close_thrown:
  "inMultiLineComment st \<Longrightarrow> re_match (multilineEnd p) l \<Longrightarrow>
   dx (multiLine st @ l @ nl) = Inl err \<Longrightarrow>
   parseLine p dx st l =
     st \<lparr> currentSection :=
            (currentSection st) \<lparr> docs := docs (currentSection st) @ (multiLine st @ l @ nl) \<rparr>,
          inMultiLineComment := False, multiLine := '''',
          console := console st @ [''Dox error: '' @ err] \<rparr>"
  by (simp add: parseLine_def)

lemma parseLine_open:
  "\<not> inMultiLineComment st \<Longrightarrow> re_match (multilineStart p) l \<Longrightarrow>
   \<not> re_match (multilineEnd p) l \<Longrightarrow>
   parseLine p dx st l = (storeSection st) \<lparr> inMultiLineComment := True, multiLine := l \<rparr>"
  by (simp add: parseLine_def)

lemma parseLine_comment:
  "\<not> inMultiLineComment st \<Longrightarrow>
   \<not> (re_match (multilineStart p) l \<and> \<not> re_match (multilineEnd p) l) \<Longrightarrow>
   re_match (commentRegex p) l \<Longrightarrow> \<not> re_match (commentsIgnore p) l \<Longrightarrow>
   parseLine p dx st l =
     (storeSection st)
       \<lparr> currentSection :=
           (currentSection (storeSection st))
             \<lparr> docs := docs (currentSection (storeSection st))
                        @ re_replace (commentRegex p) l @ nl \<rparr> \<rparr>"
  by (auto simp add: parseLine_def)

lemma parseLine_code:
  "\<not> inMultiLineComment st \<Longrightarrow>
   \<not> (re_match (multilineStart p) l \<and> \<not> re_match (multilineEnd p) l) \<Longrightarrow>
   \<not> re_match (commentRegex p) l \<Longrightarrow> \<not> re_match (commentsIgnore p) l \<Longrightarrow>
   parseLine p dx st l =
     st \<lparr> currentSection :=
            (currentSection st) \<lparr> code := code (currentSection st) @ l @ nl \<rparr> \<rparr>"
  by (auto simp add: parseLine_def)

lemma parseLine_ignored:
  "\<not> inMultiLineComment st \<Longrightarrow>
   \<not> (re_match (multilineStart p) l \<and> \<not> re_match (multilineEnd p) l) \<Longrightarrow>
   re_match (commentsIgnore p) l \<Longrightarrow>
   parseLine p dx st l = st"
  by (auto simp add: parseLine_def)

lemma parseLines_Nil [simp]: "parseLines p dx st [] = st"
  by (simp add: parseLines_def)

lemma parseLines_Cons [simp]:
  "parseLines p dx st (l # ls) = parseLines p dx (parseLine p dx st l) ls"
  by (simp add: parseLines_def)

lemma parseLines_append:
  "parseLines p dx st (xs @ ys) = parseLines p dx (parseLines p dx st xs) ys"
  by (simp add: parseLines_def)

lemma parseSections_Inr:
  "languageParams (extname e) filename = Inr p \<Longrightarrow>
   parseSections e data filename =
     Inr (sections (finalState p (doxRender e) data)
          @ [currentSection (finalState p (doxRender e) data)])"
  by (simp add: parseSections_def)

section \<open>Running the parser on concrete lines\<close>

lemma javascript_fields [simp]:
  "commentRegex javascript = re_commentRegex"
  "commentsIgnore javascript = re_commentsIgnore"
  "multilineStart javascript = re_literal ''/*''"
  "multilineEnd javascript = re_literal ''*/''"
  by (simp_all add: javascript_def)

lemma initialState_fields [simp]:
  "sections initialState = []"
  "currentSection initialState = emptySection"
  "inMultiLineComment initialState = False"
  "multiLine initialState = ''''"
  "console initialState = []"
  by (simp_all add: initialState_def)

lemma emptySection_fields [simp]:
  "docs emptySection = ''''"
  "code emptySection = ''''"
  by (simp_all add: emptySection_def)

lemma throwingEnv_fields [simp]:
  "extname throwingEnv = extnameModel"
  "doxRender throwingEnv = doxThrows"
  by (simp_all add: throwingEnv_def)

lemma languageParams_a_js: "languageParams extnameModel ''a.js'' = Inr javascript"
  by (simp add: languageParams_def extnameModel_def)

lemmas js_eval =
  re_match_def re_replace_def re_literal_def re_commentRegex_def re_commentsIgnore_def
  isSpace_def blank_def nl_def

section \<open>The claims about one line\<close>

text \<open>
  Claim C8. A line met outside an open multi-line block that matches both the pattern that
  starts a multi-line comment and the one that ends it does not put the parser into the
  multi-line state, and no buffer is started for it: the buffer stays as it was.
\<close>

theorem self_closing_stays_outside:
  assumes "\<not> inMultiLineComment st"
    and "re_match (multilineStart p) l"
    and "re_match (multilineEnd p) l"
  shows "\<not> inMultiLineComment (parseLine p dx st l)
         \<and> multiLine (parseLine p dx st l) = multiLine st"
  using assms by (simp add: parseLine_def)

theorem self_closing_stays_outside_witness:
  "\<not> inMultiLineComment initialState
   \<and> re_match (multilineStart javascript) ''/* x */''
   \<and> re_match (multilineEnd javascript) ''/* x */''
   \<and> \<not> inMultiLineComment (parseLine javascript doxThrows initialState ''/* x */'')
   \<and> multiLine (parseLine javascript doxThrows initialState ''/* x */'') = ''''"
proof -
  have a: "\<not> inMultiLineComment initialState" by simp
  have b: "re_match (multilineStart javascript) ''/* x */''" by (simp add: js_eval)
  have c: "re_match (multilineEnd javascript) ''/* x */''" by (simp add: js_eval)
  from self_closing_stays_outside [OF a b c, of doxThrows] a b c show ?thesis by simp
qed

text \<open>
  Claim C10. A line met outside an open multi-line block that matches both multi-line
  patterns, and neither the single-line comment pattern nor the ignore pattern, is appended
  with a line feed to the code of the current section; nothing else changes, so it is not
  documentation.
\<close>

theorem self_closing_is_code:
  assumes "\<not> inMultiLineComment st"
    and "re_match (multilineStart p) l"
    and "re_match (multilineEnd p) l"
    and "\<not> re_match (commentRegex p) l"
    and "\<not> re_match (commentsIgnore p) l"
  shows "parseLine p dx st l =
           st \<lparr> currentSection :=
                  (currentSection st) \<lparr> code := code (currentSection st) @ l @ nl \<rparr> \<rparr>"
  using assms by (simp add: parseLine_def)

theorem self_closing_is_code_witness:
  "\<not> inMultiLineComment initialState
   \<and> re_match (multilineStart javascript) ''/* x */''
   \<and> re_match (multilineEnd javascript) ''/* x */''
   \<and> \<not> re_match (commentRegex javascript) ''/* x */''
   \<and> \<not> re_match (commentsIgnore javascript) ''/* x */''
   \<and> currentSection (parseLine javascript doxThrows initialState ''/* x */'')
       = \<lparr> docs = '''', code = ''/* x */\<newline>'' \<rparr>"
proof -
  have a: "\<not> inMultiLineComment initialState" by simp
  have b: "re_match (multilineStart javascript) ''/* x */''" by (simp add: js_eval)
  have c: "re_match (multilineEnd javascript) ''/* x */''" by (simp add: js_eval)
  have d: "\<not> re_match (commentRegex javascript) ''/* x */''" by (simp add: js_eval)
  have e: "\<not> re_match (commentsIgnore javascript) ''/* x */''" by (simp add: js_eval)
  from self_closing_is_code [OF a b c d e, of doxThrows] a b c d e
  show ?thesis by (simp add: emptySection_def nl_def)
qed

section \<open>The sections that are returned\<close>

text \<open>
  Claim C3. Whatever the input text is, the empty string too, the parser returns a sequence
  of sections that is not empty: when the loop has ended the current section is pushed,
  whether or not it has docs or code, so it is the last section returned.
\<close>

theorem parseSections_not_empty:
  assumes "languageParams (extname e) filename = Inr p"
  shows "\<exists>secs. parseSections e data filename = Inr secs \<and> secs \<noteq> []
           \<and> last secs = currentSection (finalState p (doxRender e) data)"
  using assms by (simp add: parseSections_def)

lemma finalState_empty_text:
  "finalState javascript dx '''' =
     initialState \<lparr> currentSection := \<lparr> docs = '''', code = ''\<newline>'' \<rparr> \<rparr>"
  by (simp add: finalState_def parseLine_code js_eval emptySection_def)

theorem parseSections_not_empty_witness:
  "languageParams (extname throwingEnv) ''a.js'' = Inr javascript
   \<and> (\<exists>secs. parseSections throwingEnv '''' ''a.js'' = Inr secs \<and> secs \<noteq> []
         \<and> last secs = \<lparr> docs = '''', code = ''\<newline>'' \<rparr>)"
proof -
  have a: "languageParams (extname throwingEnv) ''a.js'' = Inr javascript"
    by (simp add: languageParams_a_js)
  from parseSections_not_empty [OF a, of "''''"] a show ?thesis
    by (simp add: finalState_empty_text)
qed

lemma parseLine_pushed_code:
  assumes "\<forall>s \<in> set (sections st). code s \<noteq> ''''"
  shows "\<forall>s \<in> set (sections (parseLine p dx st l)). code s \<noteq> ''''"
  using assms by (auto simp add: parseLine_def storeSection_def split: sum.splits)

lemma parseLines_pushed_code:
  "\<forall>s \<in> set (sections st). code s \<noteq> '''' \<Longrightarrow>
   \<forall>s \<in> set (sections (parseLines p dx st ls)). code s \<noteq> ''''"
proof (induction ls arbitrary: st)
  case Nil
  then show ?case by simp
next
  case (Cons l ls)
  from Cons.prems have "\<forall>s \<in> set (sections (parseLine p dx st l)). code s \<noteq> ''''"
    by (rule parseLine_pushed_code)
  then show ?case using Cons.IH by simp
qed

text \<open>
  Claim C9. Every section that is returned, the last one apart, has code: a section is
  pushed at a boundary only when code has been gathered, and only the push after the loop
  can give a section without code.
\<close>

theorem all_but_last_have_code:
  assumes "languageParams (extname e) filename = Inr p"
    and "parseSections e data filename = Inr secs"
  shows "\<forall>s \<in> set (butlast secs). code s \<noteq> ''''"
proof -
  let ?f = "finalState p (doxRender e) data"
  from assms have "secs = sections ?f @ [currentSection ?f]"
    by (simp add: parseSections_def)
  then have "butlast secs = sections ?f" by simp
  moreover have "\<forall>s \<in> set (sections ?f). code s \<noteq> ''''"
    unfolding finalState_def by (rule parseLines_pushed_code) simp
  ultimately show ?thesis by simp
qed

lemma split_two_sections:
  "split_nl ''var a;\<newline>// b\<newline>var c;'' = [''var a;'', ''// b'', ''var c;'']"
  by simp

lemma finalState_two_sections:
  "finalState javascript dx ''var a;\<newline>// b\<newline>var c;'' =
     initialState \<lparr> sections := [\<lparr> docs = '''', code = ''var a;\<newline>'' \<rparr>],
                    currentSection := \<lparr> docs = ''b\<newline>'', code = ''var c;\<newline>'' \<rparr> \<rparr>"
  unfolding finalState_def split_two_sections
  by (simp add: parseLine_code parseLine_comment storeSection_def js_eval emptySection_def)

theorem all_but_last_have_code_witness:
  "languageParams (extname throwingEnv) ''a.js'' = Inr javascript
   \<and> parseSections throwingEnv ''var a;\<newline>// b\<newline>var c;'' ''a.js''
       = Inr [\<lparr> docs = '''', code = ''var a;\<newline>'' \<rparr>,
              \<lparr> docs = ''b\<newline>'', code = ''var c;\<newline>'' \<rparr>]
   \<and> butlast [\<lparr> docs = '''', code = ''var a;\<newline>'' \<rparr>,
                \<lparr> docs = ''b\<newline>'', code = ''var c;\<newline>'' \<rparr>]
       = [\<lparr> docs = '''', code = ''var a;\<newline>'' \<rparr>]
   \<and> code \<lparr> docs = '''', code = ''var a;\<newline>'' \<rparr> \<noteq> ''''"
proof -
  have a: "languageParams (extname throwingEnv) ''a.js'' = Inr javascript"
    by (simp add: languageParams_a_js)
  have b: "parseSections throwingEnv ''var a;\<newline>// b\<newline>var c;'' ''a.js''
       = Inr [\<lparr> docs = '''', code = ''var a;\<newline>'' \<rparr>,
              \<lparr> docs = ''b\<newline>'', code = ''var c;\<newline>'' \<rparr>]"
    by (simp add: parseSections_Inr [OF a] finalState_two_sections)
  from all_but_last_have_code [OF a b] a b show ?thesis by simp
qed

text \<open>
  Claim C5, as the specification states it: for the input \<^verbatim>\<open>"// hello\nvar x = 1;\n"\<close> and
  the JavaScript rules the parser returns one section with docs \<^verbatim>\<open>"hello\n"\<close> and code
  \<^verbatim>\<open>"var x = 1;\n"\<close>. The code does not do that: the text ends with a line feed, so
  \<^verbatim>\<open>split\<close> gives a third, empty line, and that line is code.
\<close>

lemma split_hello:
  "split_nl ''// hello\<newline>var x = 1;\<newline>'' = [''// hello'', ''var x = 1;'', '''']"
  by simp

lemma finalState_hello:
  "finalState javascript dx ''// hello\<newline>var x = 1;\<newline>'' =
     initialState \<lparr> currentSection :=
                      \<lparr> docs = ''hello\<newline>'', code = ''var x = 1;\<newline>\<newline>'' \<rparr> \<rparr>"
  unfolding finalState_def split_hello
  by (simp add: parseLine_code parseLine_comment storeSection_idle js_eval emptySection_def)

theorem hello_example_counterexample:
  "languageParams (extname throwingEnv) ''a.js'' = Inr javascript
   \<and> parseSections throwingEnv ''// hello\<newline>var x = 1;\<newline>'' ''a.js''
       \<noteq> Inr [\<lparr> docs = ''hello\<newline>'', code = ''var x = 1;\<newline>'' \<rparr>]"
  by (simp add: languageParams_a_js parseSections_def finalState_hello)

text \<open>
  Claim C5, amended: for the input \<^verbatim>\<open>"// hello\nvar x = 1;\n"\<close> and the JavaScript rules
  the parser returns exactly one section, with docs \<^verbatim>\<open>"hello\n"\<close> and code
  \<^verbatim>\<open>"var x = 1;\n\n"\<close>: the empty piece after the last line feed is one more code line.
\<close>

theorem hello_example:
  assumes "languageParams (extname e) filename = Inr javascript"
  shows "parseSections e ''// hello\<newline>var x = 1;\<newline>'' filename
           = Inr [\<lparr> docs = ''hello\<newline>'', code = ''var x = 1;\<newline>\<newline>'' \<rparr>]"
  using assms by (simp add: parseSections_def finalState_hello)

theorem hello_example_witness:
  "languageParams (extname throwingEnv) ''a.js'' = Inr javascript
   \<and> parseSections throwingEnv ''// hello\<newline>var x = 1;\<newline>'' ''a.js''
       = Inr [\<lparr> docs = ''hello\<newline>'', code = ''var x = 1;\<newline>\<newline>'' \<rparr>]"
proof -
  have a: "languageParams (extname throwingEnv) ''a.js'' = Inr javascript"
    by (simp add: languageParams_a_js)
  from hello_example [OF a] a show ?thesis by simp
qed

section \<open>Section boundaries\<close>

text \<open>A run of single-line comments met while the current section has no code.\<close>

lemma comment_run_no_code:
  assumes "\<not> inMultiLineComment st"
    and "code (currentSection st) = ''''"
    and "\<forall>l \<in> set cs.
           \<not> (re_match (multilineStart p) l \<and> \<not> re_match (multilineEnd p) l)
           \<and> re_match (commentRegex p) l \<and> \<not> re_match (commentsIgnore p) l"
  shows "parseLines p dx st cs =
           st \<lparr> currentSection :=
                  (currentSection st)
                    \<lparr> docs := docs (currentSection st)
                               @ concat (map (\<lambda>l. re_replace (commentRegex p) l @ nl) cs) \<rparr> \<rparr>"
  using assms
proof (induction cs arbitrary: st)
  case Nil
  then show ?case by simp
next
  case (Cons c cs)
  let ?st1 = "parseLine p dx st c"
  have step: "?st1 = st \<lparr> currentSection :=
                 (currentSection st)
                   \<lparr> docs := docs (currentSection st) @ re_replace (commentRegex p) c @ nl \<rparr> \<rparr>"
    using Cons.prems by (simp add: parseLine_comment storeSection_idle)
  have "parseLines p dx ?st1 cs =
          ?st1 \<lparr> currentSection :=
                  (currentSection ?st1)
                    \<lparr> docs := docs (currentSection ?st1)
                               @ concat (map (\<lambda>l. re_replace (commentRegex p) l @ nl) cs) \<rparr> \<rparr>"
    using Cons.prems by (intro Cons.IH) (simp_all add: step)
  then show ?case by (simp add: step)
qed

text \<open>
  Claim C4. At a section boundary the current section is pushed only if it has code, and
  then only if its code or its docs are not all whitespace. First conjunct: a line that
  starts a multi-line block. Second conjunct: a run of one or more single-line comment
  lines, which pushes at most the one section that was current before the run, and leaves
  one current section that holds the docs of the whole run, started anew when there was
  code before: one new section for the run, not one for each comment line.
\<close>

theorem boundary_pushes_once:
  assumes "\<not> inMultiLineComment st"
  shows "(re_match (multilineStart p) l \<and> \<not> re_match (multilineEnd p) l \<longrightarrow>
            sections (parseLine p dx st l) =
              (if code (currentSection st) \<noteq> ''''
                  \<and> (\<not> blank (code (currentSection st)) \<or> \<not> blank (docs (currentSection st)))
               then sections st @ [currentSection st] else sections st)
            \<and> currentSection (parseLine p dx st l) =
                (if code (currentSection st) \<noteq> '''' then \<lparr> docs = '''', code = '''' \<rparr>
                 else currentSection st))
       \<and> ((\<forall>c \<in> set (c0 # cs).
              \<not> (re_match (multilineStart p) c \<and> \<not> re_match (multilineEnd p) c)
              \<and> re_match (commentRegex p) c \<and> \<not> re_match (commentsIgnore p) c) \<longrightarrow>
            sections (parseLines p dx st (c0 # cs)) =
              (if code (currentSection st) \<noteq> ''''
                  \<and> (\<not> blank (code (currentSection st)) \<or> \<not> blank (docs (currentSection st)))
               then sections st @ [currentSection st] else sections st)
            \<and> currentSection (parseLines p dx st (c0 # cs)) =
                \<lparr> docs = (if code (currentSection st) \<noteq> '''' then ''''
                           else docs (currentSection st))
                          @ concat (map (\<lambda>c. re_replace (commentRegex p) c @ nl) (c0 # cs)),
                  code = '''' \<rparr>)"
proof (intro conjI impI)
  assume "re_match (multilineStart p) l \<and> \<not> re_match (multilineEnd p) l"
  then have open_l: "parseLine p dx st l
      = (storeSection st) \<lparr> inMultiLineComment := True, multiLine := l \<rparr>"
    using assms by (simp add: parseLine_open)
  show "sections (parseLine p dx st l) =
          (if code (currentSection st) \<noteq> ''''
              \<and> (\<not> blank (code (currentSection st)) \<or> \<not> blank (docs (currentSection st)))
           then sections st @ [currentSection st] else sections st)"
    by (simp add: open_l storeSection_sections)
  show "currentSection (parseLine p dx st l) =
          (if code (currentSection st) \<noteq> '''' then \<lparr> docs = '''', code = '''' \<rparr>
           else currentSection st)"
    by (simp add: open_l storeSection_current emptySection_def)
next
  assume run: "\<forall>c \<in> set (c0 # cs).
      \<not> (re_match (multilineStart p) c \<and> \<not> re_match (multilineEnd p) c)
      \<and> re_match (commentRegex p) c \<and> \<not> re_match (commentsIgnore p) c"
  let ?s = "storeSection st"
  let ?st1 = "parseLine p dx st c0"
  have first: "?st1 = ?s \<lparr> currentSection :=
      (currentSection ?s) \<lparr> docs := docs (currentSection ?s) @ re_replace (commentRegex p) c0 @ nl \<rparr> \<rparr>"
    using assms run by (simp add: parseLine_comment)
  have rest: "parseLines p dx ?st1 cs =
      ?st1 \<lparr> currentSection :=
              (currentSection ?st1)
                \<lparr> docs := docs (currentSection ?st1)
                           @ concat (map (\<lambda>c. re_replace (commentRegex p) c @ nl) cs) \<rparr> \<rparr>"
    using assms run by (intro comment_run_no_code) (simp_all add: first)
  show "sections (parseLines p dx st (c0 # cs)) =
          (if code (currentSection st) \<noteq> ''''
              \<and> (\<not> blank (code (currentSection st)) \<or> \<not> blank (docs (currentSection st)))
           then sections st @ [currentSection st] else sections st)"
    by (simp add: rest) (simp add: first storeSection_sections)
  show "currentSection (parseLines p dx st (c0 # cs)) =
          \<lparr> docs = (if code (currentSection st) \<noteq> '''' then '''' else docs (currentSection st))
                    @ concat (map (\<lambda>c. re_replace (commentRegex p) c @ nl) (c0 # cs)),
            code = '''' \<rparr>"
    by (simp add: rest) (simp add: first storeSection_current emptySection_def)
qed

theorem boundary_pushes_once_witness:
  "\<not> inMultiLineComment
       (initialState \<lparr> currentSection := \<lparr> docs = '''', code = ''var a;\<newline>'' \<rparr> \<rparr>)
   \<and> re_match (multilineStart javascript) ''/* open''
   \<and> \<not> re_match (multilineEnd javascript) ''/* open''
   \<and> sections (parseLine javascript doxThrows
         (initialState \<lparr> currentSection := \<lparr> docs = '''', code = ''var a;\<newline>'' \<rparr> \<rparr>)
         ''/* open'')
       = [\<lparr> docs = '''', code = ''var a;\<newline>'' \<rparr>]
   \<and> \<not> re_match (multilineStart javascript) ''// one''
   \<and> re_match (commentRegex javascript) ''// one''
   \<and> \<not> re_match (commentsIgnore javascript) ''// one''
   \<and> \<not> re_match (multilineStart javascript) ''// two''
   \<and> re_match (commentRegex javascript) ''// two''
   \<and> \<not> re_match (commentsIgnore javascript) ''// two''
   \<and> sections (parseLines javascript doxThrows
         (initialState \<lparr> currentSection := \<lparr> docs = '''', code = ''var a;\<newline>'' \<rparr> \<rparr>)
         [''// one'', ''// two''])
       = [\<lparr> docs = '''', code = ''var a;\<newline>'' \<rparr>]
   \<and> currentSection (parseLines javascript doxThrows
         (initialState \<lparr> currentSection := \<lparr> docs = '''', code = ''var a;\<newline>'' \<rparr> \<rparr>)
         [''// one'', ''// two''])
       = \<lparr> docs = ''one\<newline>two\<newline>'', code = '''' \<rparr>"
proof -
  let ?st = "initialState \<lparr> currentSection := \<lparr> docs = '''', code = ''var a;\<newline>'' \<rparr> \<rparr>"
  have a: "\<not> inMultiLineComment ?st" by simp
  have b: "re_match (multilineStart javascript) ''/* open''
           \<and> \<not> re_match (multilineEnd javascript) ''/* open''"
    by (simp add: js_eval)
  have c: "\<forall>c \<in> set [''// one'', ''// two''].
         \<not> (re_match (multilineStart javascript) c \<and> \<not> re_match (multilineEnd javascript) c)
         \<and> re_match (commentRegex javascript) c \<and> \<not> re_match (commentsIgnore javascript) c"
    by (simp add: js_eval)
  have d: "re_replace (commentRegex javascript) ''// one'' = ''one''"
    "re_replace (commentRegex javascript) ''// two'' = ''two''"
    by (simp_all add: js_eval)
  have e: "\<not> blank ''var a;\<newline>''" by (simp add: js_eval)
  have f: "\<not> re_match (multilineStart javascript) ''// one''
      \<and> re_match (commentRegex javascript) ''// one''
      \<and> \<not> re_match (commentsIgnore javascript) ''// one''
      \<and> \<not> re_match (multilineStart javascript) ''// two''
      \<and> re_match (commentRegex javascript) ''// two''
      \<and> \<not> re_match (commentsIgnore javascript) ''// two''"
    by (simp add: js_eval)
  from boundary_pushes_once [OF a, of javascript "''/* open''" doxThrows "''// one''" "[''// two'']"]
    a b c d e f
  show ?thesis by (simp add: nl_def)
qed

section \<open>Multi-line blocks\<close>

text \<open>Lines met inside an open block, none of which ends it, go to the buffer only.\<close>

lemma buffer_run:
  assumes "inMultiLineComment st"
    and "\<forall>y \<in> set ys. \<not> re_match (multilineEnd p) y"
  shows "parseLines p dx st ys = st \<lparr> multiLine := multiLine st @ joinLines ys \<rparr>"
  using assms
proof (induction ys arbitrary: st)
  case Nil
  then show ?case by (simp add: joinLines_def)
next
  case (Cons y ys)
  let ?st1 = "st \<lparr> multiLine := multiLine st @ y @ nl \<rparr>"
  have step: "parseLine p dx st y = ?st1"
    using Cons.prems by (simp add: parseLine_buffer)
  have "parseLines p dx ?st1 ys = ?st1 \<lparr> multiLine := multiLine ?st1 @ joinLines ys \<rparr>"
    using Cons.prems by (intro Cons.IH) simp_all
  then show ?case by (simp add: step joinLines_def)
qed

text \<open>From the line that opens a block to the last line before the one that ends it.\<close>

lemma open_block_run:
  assumes "\<not> inMultiLineComment st"
    and "re_match (multilineStart p) l"
    and "\<not> re_match (multilineEnd p) l"
    and "\<forall>y \<in> set ys. \<not> re_match (multilineEnd p) y"
  shows "parseLines p dx st (l # ys) =
           (storeSection st) \<lparr> inMultiLineComment := True, multiLine := l @ joinLines ys \<rparr>"
proof -
  let ?st1 = "(storeSection st) \<lparr> inMultiLineComment := True, multiLine := l \<rparr>"
  have "parseLine p dx st l = ?st1"
    using assms by (simp add: parseLine_open)
  moreover have "parseLines p dx ?st1 ys = ?st1 \<lparr> multiLine := multiLine ?st1 @ joinLines ys \<rparr>"
    using assms by (intro buffer_run) simp_all
  ultimately show ?thesis by simp
qed

text \<open>
  Claim C6. When a multi-line block is opened and no later line ends it, the sections
  returned are those the parser had before the opening line, after the push of the
  boundary: they depend on neither the opening line nor any line after it. All those lines
  are in the buffer when the loop ends, the parser is still inside the block, and the
  buffer is not returned.
\<close>

theorem unclosed_block_is_lost:
  assumes "languageParams (extname e) filename = Inr p"
    and "split_nl data = xs @ l # ys"
    and "before = parseLines p (doxRender e) initialState xs"
    and "\<not> inMultiLineComment before"
    and "re_match (multilineStart p) l"
    and "\<not> re_match (multilineEnd p) l"
    and "\<forall>y \<in> set ys. \<not> re_match (multilineEnd p) y"
  shows "parseSections e data filename
           = Inr (sections (storeSection before) @ [currentSection (storeSection before)])
         \<and> inMultiLineComment (finalState p (doxRender e) data)
         \<and> multiLine (finalState p (doxRender e) data) = l @ joinLines ys"
proof -
  have "finalState p (doxRender e) data = parseLines p (doxRender e) before (l # ys)"
    using assms(2,3) by (simp add: finalState_def parseLines_append)
  also have "\<dots> = (storeSection before)
                     \<lparr> inMultiLineComment := True, multiLine := l @ joinLines ys \<rparr>"
    using assms(4-7) by (rule open_block_run)
  finally show ?thesis
    using assms(1) by (simp add: parseSections_def)
qed

lemma split_never_closes:
  "split_nl ''/* never closes\<newline>var x = 1;\<newline>''
     = [] @ ''/* never closes'' # [''var x = 1;'', '''']"
  by simp

theorem unclosed_block_is_lost_witness:
  "languageParams (extname throwingEnv) ''a.js'' = Inr javascript
   \<and> split_nl ''/* never closes\<newline>var x = 1;\<newline>''
       = [] @ ''/* never closes'' # [''var x = 1;'', '''']
   \<and> initialState = parseLines javascript (doxRender throwingEnv) initialState []
   \<and> \<not> inMultiLineComment initialState
   \<and> re_match (multilineStart javascript) ''/* never closes''
   \<and> \<not> re_match (multilineEnd javascript) ''/* never closes''
   \<and> \<not> re_match (multilineEnd javascript) ''var x = 1;''
   \<and> \<not> re_match (multilineEnd javascript) ''''
   \<and> parseSections throwingEnv ''/* never closes\<newline>var x = 1;\<newline>'' ''a.js''
       = Inr [\<lparr> docs = '''', code = '''' \<rparr>]
   \<and> multiLine (finalState javascript (doxRender throwingEnv)
                   ''/* never closes\<newline>var x = 1;\<newline>'')
       = ''/* never closesvar x = 1;\<newline>\<newline>''"
proof -
  have a: "languageParams (extname throwingEnv) ''a.js'' = Inr javascript"
    by (simp add: languageParams_a_js)
  have c: "initialState = parseLines javascript (doxRender throwingEnv) initialState []"
    by simp
  have d: "\<not> inMultiLineComment initialState" by simp
  have f: "re_match (multilineStart javascript) ''/* never closes''"
    by (simp add: js_eval)
  have g: "\<not> re_match (multilineEnd javascript) ''/* never closes''"
    by (simp add: js_eval)
  have h: "\<forall>y \<in> set [''var x = 1;'', '''']. \<not> re_match (multilineEnd javascript) y"
    by (simp add: js_eval)
  from unclosed_block_is_lost [OF a split_never_closes c d f g h] a split_never_closes c d f g h
  show ?thesis
    by (simp add: storeSection_idle joinLines_def nl_def emptySection_def)
qed

text \<open>
  Claim C7. When the dox rendering of a multi-line block throws, the parser does not pass
  the exception on: it returns sections. The buffered text of the block (the opening line,
  then every later line of the block with its line feed, the closing line included) is
  appended as it is to the docs of the current section, the message goes to the console,
  the parser leaves the block, and the loop goes on with the remaining lines from that
  state.
\<close>

theorem dox_failure_falls_back:
  assumes "languageParams (extname e) filename = Inr p"
    and "split_nl data = xs @ l # ms @ c # rest"
    and "before = storeSection (parseLines p (doxRender e) initialState xs)"
    and "\<not> inMultiLineComment before"
    and "re_match (multilineStart p) l"
    and "\<not> re_match (multilineEnd p) l"
    and "\<forall>m \<in> set ms. \<not> re_match (multilineEnd p) m"
    and "re_match (multilineEnd p) c"
    and "doxRender e (l @ joinLines ms @ c @ nl) = Inl err"
    and "after = before
           \<lparr> currentSection :=
               (currentSection before)
                 \<lparr> docs := docs (currentSection before) @ (l @ joinLines ms @ c @ nl) \<rparr>,
             inMultiLineComment := False, multiLine := '''',
             console := console before @ [''Dox error: '' @ err] \<rparr>"
  shows "finalState p (doxRender e) data = parseLines p (doxRender e) after rest
         \<and> parseSections e data filename
             = Inr (sections (parseLines p (doxRender e) after rest)
                    @ [currentSection (parseLines p (doxRender e) after rest)])"
proof -
  let ?dx = "doxRender e"
  let ?s = "parseLines p ?dx initialState xs"
  let ?b = "before \<lparr> inMultiLineComment := True, multiLine := l @ joinLines ms \<rparr>"
  have outside: "\<not> inMultiLineComment ?s"
    using assms(3,4) by simp
  have "parseLines p ?dx ?s (l # ms) = ?b"
    using outside assms(5-7) unfolding assms(3) by (rule open_block_run)
  moreover have "parseLine p ?dx ?b c = after"
    using assms(8,9) unfolding assms(10) by (simp add: parseLine_close_thrown)
  ultimately have "parseLines p ?dx ?s (l # ms @ c # rest) = parseLines p ?dx after rest"
    using parseLines_append [of p ?dx ?s "l # ms" "c # rest"] by simp
  then have "finalState p ?dx data = parseLines p ?dx after rest"
    using assms(2) by (simp add: finalState_def parseLines_append)
  then show ?thesis
    using assms(1) by (simp add: parseSections_def)
qed

lemma split_bad_block:
  "split_nl ''var a;\<newline>/**\<newline> * @param\<newline> */\<newline>var x;''
     = [''var a;''] @ ''/**'' # ['' * @param''] @ '' */'' # [''var x;'']"
  by simp

lemma before_bad_block:
  "initialState \<lparr> sections := [\<lparr> docs = '''', code = ''var a;\<newline>'' \<rparr>] \<rparr>
     = storeSection (parseLines javascript dx initialState [''var a;''])"
  by (simp add: parseLine_code storeSection_def js_eval initialState_def)

theorem dox_failure_falls_back_witness:
  "languageParams (extname throwingEnv) ''a.js'' = Inr javascript
   \<and> split_nl ''var a;\<newline>/**\<newline> * @param\<newline> */\<newline>var x;''
       = [''var a;''] @ ''/**'' # ['' * @param''] @ '' */'' # [''var x;'']
   \<and> re_match (multilineStart javascript) ''/**''
   \<and> \<not> re_match (multilineEnd javascript) ''/**''
   \<and> \<not> re_match (multilineEnd javascript) '' * @param''
   \<and> re_match (multilineEnd javascript) '' */''
   \<and> doxRender throwingEnv (''/**'' @ joinLines ['' * @param''] @ '' */'' @ nl) = Inl ''Error''
   \<and> parseSections throwingEnv
         ''var a;\<newline>/**\<newline> * @param\<newline> */\<newline>var x;'' ''a.js''
       = Inr [\<lparr> docs = '''', code = ''var a;\<newline>'' \<rparr>,
              \<lparr> docs = ''/** * @param\<newline> */\<newline>'', code = ''var x;\<newline>'' \<rparr>]
   \<and> console (finalState javascript (doxRender throwingEnv)
                 ''var a;\<newline>/**\<newline> * @param\<newline> */\<newline>var x;'')
       = [''Dox error: Error'']"
proof -
  let ?before = "initialState \<lparr> sections := [\<lparr> docs = '''', code = ''var a;\<newline>'' \<rparr>] \<rparr>"
  let ?after = "?before
           \<lparr> currentSection :=
               (currentSection ?before)
                 \<lparr> docs := docs (currentSection ?before)
                            @ (''/**'' @ joinLines ['' * @param''] @ '' */'' @ nl) \<rparr>,
             inMultiLineComment := False, multiLine := '''',
             console := console ?before @ [''Dox error: '' @ ''Error''] \<rparr>"
  have a: "languageParams (extname throwingEnv) ''a.js'' = Inr javascript"
    by (simp add: languageParams_a_js)
  have c: "?before = storeSection (parseLines javascript (doxRender throwingEnv) initialState [''var a;''])"
    by (rule before_bad_block)
  have d: "\<not> inMultiLineComment ?before" by simp
  have f: "re_match (multilineStart javascript) ''/**''" by (simp add: js_eval)
  have g: "\<not> re_match (multilineEnd javascript) ''/**''" by (simp add: js_eval)
  have h: "\<forall>m \<in> set ['' * @param'']. \<not> re_match (multilineEnd javascript) m"
    by (simp add: js_eval)
  have i: "re_match (multilineEnd javascript) '' */''" by (simp add: js_eval)
  have j: "doxRender throwingEnv (''/**'' @ joinLines ['' * @param''] @ '' */'' @ nl) = Inl ''Error''"
    by (simp add: doxThrows_def)
  have k: "?after = ?after" by (rule refl)
  have rest: "parseLines javascript (doxRender throwingEnv) ?after [''var x;'']
      = initialState \<lparr> sections := [\<lparr> docs = '''', code = ''var a;\<newline>'' \<rparr>],
           currentSection := \<lparr> docs = ''/** * @param\<newline> */\<newline>'', code = ''var x;\<newline>'' \<rparr>,
           console := [''Dox error: Error''] \<rparr>"
    by (simp add: parseLine_code js_eval joinLines_def initialState_def emptySection_def)
  let ?data = "''var a;\<newline>/**\<newline> * @param\<newline> */\<newline>var x;''"
  let ?result = "initialState \<lparr> sections := [\<lparr> docs = '''', code = ''var a;\<newline>'' \<rparr>],
           currentSection := \<lparr> docs = ''/** * @param\<newline> */\<newline>'', code = ''var x;\<newline>'' \<rparr>,
           console := [''Dox error: Error''] \<rparr>"
  have main: "finalState javascript (doxRender throwingEnv) ?data = ?result
      \<and> parseSections throwingEnv ?data ''a.js''
          = Inr (sections ?result @ [currentSection ?result])"
    using dox_failure_falls_back [OF a split_bad_block c d f g h i j k]
    unfolding rest .
  from main have m: "parseSections throwingEnv ?data ''a.js''
       = Inr [\<lparr> docs = '''', code = ''var a;\<newline>'' \<rparr>,
              \<lparr> docs = ''/** * @param\<newline> */\<newline>'', code = ''var x;\<newline>'' \<rparr>]"
    by simp
  from main have n: "console (finalState javascript (doxRender throwingEnv) ?data)
       = [''Dox error: Error'']"
    by simp
  have h': "\<not> re_match (multilineEnd javascript) '' * @param''"
    using h by simp
  show ?thesis
    by (intro conjI a split_bad_block f g h' i j m n)
qed

section \<open>Lines that match the ignore pattern\<close>

text \<open>
  Claim C2, as the specification states it: a line that matches the ignore pattern gives
  nothing to the docs or the code of any section, inside an open multi-line block too. The
  code tests the ignore pattern only in the branches for single-line comments and for code;
  inside an open block every line goes to the buffer. Here the line \<^verbatim>\<open>//= s\<close> matches the
  ignore pattern and stands in the docs of the section returned, and the section differs
  from the one returned for the same block without that line.
\<close>

lemma split_ignored_in_block:
  "split_nl ''/*\<newline>//= s\<newline>*/'' = [''/*'', ''//= s'', ''*/'']"
  by simp

lemma finalState_ignored_in_block:
  "finalState javascript doxThrows ''/*\<newline>//= s\<newline>*/'' =
     initialState \<lparr> currentSection := \<lparr> docs = ''/*//= s\<newline>*/\<newline>'', code = '''' \<rparr>,
                    console := [''Dox error: Error''] \<rparr>"
  unfolding finalState_def split_ignored_in_block
  by (simp add: parseLine_def storeSection_def js_eval doxThrows_def initialState_def
      emptySection_def)

lemma split_empty_block:
  "split_nl ''/*\<newline>*/'' = [''/*'', ''*/'']"
  by simp

lemma finalState_empty_block:
  "finalState javascript doxThrows ''/*\<newline>*/'' =
     initialState \<lparr> currentSection := \<lparr> docs = ''/**/\<newline>'', code = '''' \<rparr>,
                    console := [''Dox error: Error''] \<rparr>"
  unfolding finalState_def split_empty_block
  by (simp add: parseLine_def storeSection_def js_eval doxThrows_def initialState_def
      emptySection_def)

theorem ignored_line_in_block_counterexample:
  "re_match (commentsIgnore javascript) ''//= s''
   \<and> split_nl ''/*\<newline>//= s\<newline>*/'' = [''/*'', ''//= s'', ''*/'']
   \<and> parseSections throwingEnv ''/*\<newline>//= s\<newline>*/'' ''a.js''
       = Inr [\<lparr> docs = ''/*//= s\<newline>*/\<newline>'', code = '''' \<rparr>]
   \<and> parseSections throwingEnv ''/*\<newline>*/'' ''a.js''
       = Inr [\<lparr> docs = ''/**/\<newline>'', code = '''' \<rparr>]"
proof -
  have "re_match (commentsIgnore javascript) ''//= s''"
    by (simp add: js_eval)
  moreover have "parseSections throwingEnv ''/*\<newline>//= s\<newline>*/'' ''a.js''
       = Inr [\<lparr> docs = ''/*//= s\<newline>*/\<newline>'', code = '''' \<rparr>]"
    by (simp add: parseSections_def languageParams_a_js finalState_ignored_in_block)
  moreover have "parseSections throwingEnv ''/*\<newline>*/'' ''a.js''
       = Inr [\<lparr> docs = ''/**/\<newline>'', code = '''' \<rparr>]"
    by (simp add: parseSections_def languageParams_a_js finalState_empty_block)
  ultimately show ?thesis
    using split_ignored_in_block by blast
qed

text \<open>
  Claim C2, amended: a line that matches the ignore pattern, is met outside an open
  multi-line block and does not itself start one (it does not match the start pattern
  without the end pattern) gives nothing to the docs or the code of any section: the parser
  state after the line is the state before it, and the sections returned are those returned
  for the text without that line.
\<close>

theorem ignored_line_leaves_no_trace:
  assumes "languageParams (extname e) filename = Inr p"
    and "split_nl data = xs @ l # ys"
    and "split_nl data' = xs @ ys"
    and "before = parseLines p (doxRender e) initialState xs"
    and "\<not> inMultiLineComment before"
    and "re_match (commentsIgnore p) l"
    and "\<not> (re_match (multilineStart p) l \<and> \<not> re_match (multilineEnd p) l)"
  shows "parseLine p (doxRender e) before l = before
         \<and> parseSections e data filename = parseSections e data' filename"
proof -
  have same: "parseLine p (doxRender e) before l = before"
    using assms(5,7,6) by (rule parseLine_ignored)
  have "finalState p (doxRender e) data = parseLines p (doxRender e) before (l # ys)"
    using assms(2,4) by (simp add: finalState_def parseLines_append)
  also have "\<dots> = parseLines p (doxRender e) before ys"
    by (simp add: same)
  also have "\<dots> = finalState p (doxRender e) data'"
    using assms(3,4) by (simp add: finalState_def parseLines_append)
  finally have "finalState p (doxRender e) data = finalState p (doxRender e) data'" .
  then show ?thesis
    using assms(1) same by (simp add: parseSections_def)
qed

lemma split_with_ignored:
  "split_nl ''var a;\<newline>//= require b\<newline>var c;''
     = [''var a;''] @ ''//= require b'' # [''var c;'']"
  by simp

lemma split_without_ignored:
  "split_nl ''var a;\<newline>var c;'' = [''var a;''] @ [''var c;'']"
  by simp

lemma before_ignored:
  "initialState \<lparr> currentSection := \<lparr> docs = '''', code = ''var a;\<newline>'' \<rparr> \<rparr>
     = parseLines javascript dx initialState [''var a;'']"
  by (simp add: parseLine_code js_eval emptySection_def)

lemma finalState_without_ignored:
  "finalState javascript dx ''var a;\<newline>var c;'' =
     initialState \<lparr> currentSection := \<lparr> docs = '''', code = ''var a;\<newline>var c;\<newline>'' \<rparr> \<rparr>"
  unfolding finalState_def split_without_ignored
  by (simp add: parseLine_code js_eval emptySection_def)

theorem ignored_line_leaves_no_trace_witness:
  "languageParams (extname throwingEnv) ''a.js'' = Inr javascript
   \<and> split_nl ''var a;\<newline>//= require b\<newline>var c;''
       = [''var a;''] @ ''//= require b'' # [''var c;'']
   \<and> split_nl ''var a;\<newline>var c;'' = [''var a;''] @ [''var c;'']
   \<and> \<not> inMultiLineComment
         (initialState \<lparr> currentSection := \<lparr> docs = '''', code = ''var a;\<newline>'' \<rparr> \<rparr>)
   \<and> re_match (commentsIgnore javascript) ''//= require b''
   \<and> \<not> (re_match (multilineStart javascript) ''//= require b''
          \<and> \<not> re_match (multilineEnd javascript) ''//= require b'')
   \<and> parseSections throwingEnv ''var a;\<newline>//= require b\<newline>var c;'' ''a.js''
       = Inr [\<lparr> docs = '''', code = ''var a;\<newline>var c;\<newline>'' \<rparr>]"
proof -
  let ?before = "initialState \<lparr> currentSection := \<lparr> docs = '''', code = ''var a;\<newline>'' \<rparr> \<rparr>"
  have a: "languageParams (extname throwingEnv) ''a.js'' = Inr javascript"
    by (simp add: languageParams_a_js)
  have c: "?before = parseLines javascript (doxRender throwingEnv) initialState [''var a;'']"
    by (rule before_ignored)
  have d: "\<not> inMultiLineComment ?before" by simp
  have f: "re_match (commentsIgnore javascript) ''//= require b''"
    by (simp add: js_eval)
  have g: "\<not> (re_match (multilineStart javascript) ''//= require b''
          \<and> \<not> re_match (multilineEnd javascript) ''//= require b'')"
    by (simp add: js_eval)
  have "parseSections throwingEnv ''var a;\<newline>//= require b\<newline>var c;'' ''a.js''
      = parseSections throwingEnv ''var a;\<newline>var c;'' ''a.js''"
    using ignored_line_leaves_no_trace [OF a split_with_ignored split_without_ignored c d f g]
    by (rule conjunct2)
  also have "\<dots> = Inr [\<lparr> docs = '''', code = ''var a;\<newline>var c;\<newline>'' \<rparr>]"
    by (simp add: parseSections_Inr [OF a] finalState_without_ignored)
  finally have h: "parseSections throwingEnv ''var a;\<newline>//= require b\<newline>var c;'' ''a.js''
      = Inr [\<lparr> docs = '''', code = ''var a;\<newline>var c;\<newline>'' \<rparr>]" .
  show ?thesis
    by (intro conjI a split_with_ignored split_without_ignored d f g h)
qed

section \<open>The code text against the code lines\<close>

lemma blank_Nil [simp]: "blank ''''"
  by (simp add: blank_def)

lemma blank_append [simp]: "blank (a @ b) = (blank a \<and> blank b)"
  by (simp add: blank_def)

lemma allCode_snoc [simp]: "allCode (ss @ [s]) = allCode ss @ code s"
  by (simp add: allCode_def)

lemma joinLines_Nil [simp]: "joinLines [] = ''''"
  by (simp add: joinLines_def)

lemma joinLines_Cons [simp]: "joinLines (l # ls) = l @ nl @ joinLines ls"
  by (simp add: joinLines_def)

lemma allCode_Nil [simp]: "allCode [] = ''''"
  by (simp add: allCode_def)

lemma allCode_append [simp]: "allCode (a @ b) = allCode a @ allCode b"
  by (simp add: allCode_def)

text \<open>
  One line pushes the section it finishes, unless the code and the docs of that section
  are both whitespace.
\<close>

lemma parseLine_sections_finished:
  "sections (parseLine p dx st l) =
     sections st @ filter (\<lambda>s. \<not> (blank (code s) \<and> blank (docs s)))
       (if atBoundary p st l \<and> code (currentSection st) \<noteq> '''' then [currentSection st] else [])"
  by (auto simp add: parseLine_def storeSection_def atBoundary_def split: sum.splits)

lemma parseLines_sections_finished:
  "sections (parseLines p dx st ls) =
     sections st @ filter (\<lambda>s. \<not> (blank (code s) \<and> blank (docs s)))
       (finishedSections p dx st ls)"
proof (induction ls arbitrary: st)
  case Nil
  show ?case by simp
next
  case (Cons l ls)
  show ?case
    by (simp add: Cons.IH parseLine_sections_finished)
qed

text \<open>
  One line, next to the code lines of the specification: the code of the section it
  finishes and the code of the current section after it, followed by the code lines still
  to come, are the code of the current section before it followed by the code lines from
  this line on.
\<close>

lemma parseLine_code_finished:
  "allCode (if atBoundary p st l \<and> code (currentSection st) \<noteq> '''' then [currentSection st] else [])
     @ code (currentSection (parseLine p dx st l))
     @ joinLines (codeLines_spec p (inMultiLineComment (parseLine p dx st l)) ls)
   = code (currentSection st) @ joinLines (codeLines_spec p (inMultiLineComment st) (l # ls))"
  by (auto simp add: parseLine_def storeSection_def atBoundary_def allCode_def split: sum.splits)

lemma parseLines_code_finished:
  "allCode (finishedSections p dx st ls) @ code (currentSection (parseLines p dx st ls))
   = code (currentSection st) @ joinLines (codeLines_spec p (inMultiLineComment st) ls)"
proof (induction ls arbitrary: st)
  case Nil
  show ?case by simp
next
  case (Cons l ls)
  let ?h = "if atBoundary p st l \<and> code (currentSection st) \<noteq> '''' then [currentSection st] else []"
  let ?st1 = "parseLine p dx st l"
  have "allCode (finishedSections p dx st (l # ls))
          @ code (currentSection (parseLines p dx st (l # ls)))
        = allCode ?h @ (allCode (finishedSections p dx ?st1 ls)
            @ code (currentSection (parseLines p dx ?st1 ls)))"
    by simp
  also have "\<dots> = allCode ?h @ code (currentSection ?st1)
                     @ joinLines (codeLines_spec p (inMultiLineComment ?st1) ls)"
    by (simp only: Cons.IH)
  also have "\<dots> = code (currentSection st)
                     @ joinLines (codeLines_spec p (inMultiLineComment st) (l # ls))"
    by (rule parseLine_code_finished)
  finally show ?case .
qed

text \<open>
  Claim C1, as the specification states it: the code of all the sections returned, put
  together in order, is the code lines of the input (each with its line feed) in their
  order. The code does not do that: at a boundary a section whose code and docs are both
  whitespace is dropped, and its blank code lines with it. Here the first line is an empty
  code line, and the comment on the second line drops it.
\<close>

lemma split_blank_first:
  "split_nl ''\<newline>// a\<newline>var x;'' = ['''', ''// a'', ''var x;'']"
  by simp

lemma finalState_blank_first:
  "finalState javascript dx ''\<newline>// a\<newline>var x;'' =
     initialState \<lparr> currentSection := \<lparr> docs = ''a\<newline>'', code = ''var x;\<newline>'' \<rparr> \<rparr>"
  unfolding finalState_def split_blank_first
  by (simp add: parseLine_code parseLine_comment storeSection_def js_eval emptySection_def)

lemma codeLines_blank_first:
  "codeLines_spec javascript False (split_nl ''\<newline>// a\<newline>var x;'') = ['''', ''var x;'']"
  unfolding split_blank_first by (simp add: js_eval)

theorem code_round_trip_counterexample:
  "parseSections throwingEnv ''\<newline>// a\<newline>var x;'' ''a.js''
     = Inr [\<lparr> docs = ''a\<newline>'', code = ''var x;\<newline>'' \<rparr>]
   \<and> codeLines_spec javascript False (split_nl ''\<newline>// a\<newline>var x;'') = ['''', ''var x;'']
   \<and> allCode [\<lparr> docs = ''a\<newline>'', code = ''var x;\<newline>'' \<rparr>] \<noteq> joinLines ['''', ''var x;'']"
proof -
  have "parseSections throwingEnv ''\<newline>// a\<newline>var x;'' ''a.js''
     = Inr [\<lparr> docs = ''a\<newline>'', code = ''var x;\<newline>'' \<rparr>]"
    by (simp add: parseSections_def languageParams_a_js finalState_blank_first)
  moreover have "allCode [\<lparr> docs = ''a\<newline>'', code = ''var x;\<newline>'' \<rparr>]
       \<noteq> joinLines ['''', ''var x;'']"
    by (simp add: allCode_def nl_def)
  ultimately show ?thesis
    using codeLines_blank_first by blast
qed

text \<open>
  Claim C1, amended: the code of all the sections returned, put together in order, is the
  code lines of the input (the lines not consumed as comments, minus the lines that match
  the ignore pattern), each with its line feed and in their order, minus the code of the
  sections that are dropped whole at a boundary. Exactly: take the sections the parser
  makes, that is every section finished at a boundary and then the section that is current
  when the loop ends. Their code, put together in order, is the code lines. The parser
  returns these sections in order and leaves out, among those finished at a boundary, the
  ones whose code and docs are both whitespace, and no others.
\<close>

theorem code_round_trip_up_to_dropped_sections:
  assumes "languageParams (extname e) filename = Inr p"
    and "made = finishedSections p (doxRender e) initialState (split_nl data)
                @ [currentSection (finalState p (doxRender e) data)]"
  shows "parseSections e data filename
           = Inr (filter (\<lambda>s. \<not> (blank (code s) \<and> blank (docs s))) (butlast made)
                  @ [last made])
         \<and> allCode made = joinLines (codeLines_spec p False (split_nl data))"
proof -
  let ?dx = "doxRender e"
  let ?fin = "finishedSections p ?dx initialState (split_nl data)"
  let ?F = "finalState p ?dx data"
  have parts: "butlast made = ?fin" "last made = currentSection ?F"
    by (simp_all add: assms(2))
  have "sections ?F = filter (\<lambda>s. \<not> (blank (code s) \<and> blank (docs s))) ?fin"
    unfolding finalState_def
    using parseLines_sections_finished [of p ?dx initialState "split_nl data"]
    by simp
  then have "parseSections e data filename
      = Inr (filter (\<lambda>s. \<not> (blank (code s) \<and> blank (docs s))) (butlast made) @ [last made])"
    using assms(1) by (simp add: parseSections_def parts)
  moreover have "allCode made = joinLines (codeLines_spec p False (split_nl data))"
    using parseLines_code_finished [of p ?dx initialState "split_nl data"]
    by (simp add: assms(2) finalState_def allCode_def)
  ultimately show ?thesis by simp
qed

lemma split_blank_inside:
  "split_nl ''\<newline>// a\<newline>var x;\<newline>\<newline>var y;''
     = ['''', ''// a'', ''var x;'', '''', ''var y;'']"
  by simp

lemma finalState_blank_inside:
  "finalState javascript dx ''\<newline>// a\<newline>var x;\<newline>\<newline>var y;'' =
     initialState \<lparr> currentSection :=
       \<lparr> docs = ''a\<newline>'', code = ''var x;\<newline>\<newline>var y;\<newline>'' \<rparr> \<rparr>"
  unfolding finalState_def split_blank_inside
  by (simp add: parseLine_code parseLine_comment storeSection_def js_eval emptySection_def)

lemma finished_blank_inside:
  "finishedSections javascript dx initialState
      (split_nl ''\<newline>// a\<newline>var x;\<newline>\<newline>var y;'')
     = [\<lparr> docs = '''', code = ''\<newline>'' \<rparr>]"
  unfolding split_blank_inside
  by (simp add: atBoundary_def parseLine_code parseLine_comment storeSection_def js_eval
      emptySection_def)

lemma codeLines_blank_inside:
  "codeLines_spec javascript False (split_nl ''\<newline>// a\<newline>var x;\<newline>\<newline>var y;'')
     = ['''', ''var x;'', '''', ''var y;'']"
  unfolding split_blank_inside by (simp add: js_eval)

theorem code_round_trip_up_to_dropped_sections_witness:
  "languageParams (extname throwingEnv) ''a.js'' = Inr javascript
   \<and> [\<lparr> docs = '''', code = ''\<newline>'' \<rparr>,
       \<lparr> docs = ''a\<newline>'', code = ''var x;\<newline>\<newline>var y;\<newline>'' \<rparr>]
       = finishedSections javascript (doxRender throwingEnv) initialState
           (split_nl ''\<newline>// a\<newline>var x;\<newline>\<newline>var y;'')
         @ [currentSection (finalState javascript (doxRender throwingEnv)
              ''\<newline>// a\<newline>var x;\<newline>\<newline>var y;'')]
   \<and> parseSections throwingEnv ''\<newline>// a\<newline>var x;\<newline>\<newline>var y;'' ''a.js''
       = Inr [\<lparr> docs = ''a\<newline>'', code = ''var x;\<newline>\<newline>var y;\<newline>'' \<rparr>]
   \<and> allCode [\<lparr> docs = '''', code = ''\<newline>'' \<rparr>,
               \<lparr> docs = ''a\<newline>'', code = ''var x;\<newline>\<newline>var y;\<newline>'' \<rparr>]
       = joinLines ['''', ''var x;'', '''', ''var y;'']"
proof -
  let ?made = "[\<lparr> docs = '''', code = ''\<newline>'' \<rparr>,
       \<lparr> docs = ''a\<newline>'', code = ''var x;\<newline>\<newline>var y;\<newline>'' \<rparr>]"
  have a: "languageParams (extname throwingEnv) ''a.js'' = Inr javascript"
    by (simp add: languageParams_a_js)
  have b: "?made
       = finishedSections javascript (doxRender throwingEnv) initialState
           (split_nl ''\<newline>// a\<newline>var x;\<newline>\<newline>var y;'')
         @ [currentSection (finalState javascript (doxRender throwingEnv)
              ''\<newline>// a\<newline>var x;\<newline>\<newline>var y;'')]"
    unfolding throwingEnv_fields finished_blank_inside finalState_blank_inside by simp
  have c: "filter (\<lambda>s. \<not> (blank (code s) \<and> blank (docs s))) (butlast ?made) @ [last ?made]
       = [\<lparr> docs = ''a\<newline>'', code = ''var x;\<newline>\<newline>var y;\<newline>'' \<rparr>]"
    by (simp add: js_eval)
  from code_round_trip_up_to_dropped_sections [OF a b]
  have "parseSections throwingEnv ''\<newline>// a\<newline>var x;\<newline>\<newline>var y;'' ''a.js''
       = Inr [\<lparr> docs = ''a\<newline>'', code = ''var x;\<newline>\<newline>var y;\<newline>'' \<rparr>]
     \<and> allCode ?made = joinLines ['''', ''var x;'', '''', ''var y;'']"
    unfolding c codeLines_blank_inside .
  with a b show ?thesis by blast
qed

end
